theory Spec2Isabelle
  imports Complex_Main
begin

section \<open>Text: Python strings as code-point lists\<close>

text \<open>
  A Python \<^verbatim>\<open>str\<close> is a sequence of Unicode code points; a code point is a
  natural number here. \<open>lit\<close> reads an ASCII literal of the source.
\<close>

type_synonym ustr = "nat list"

definition lit :: "string \<Rightarrow> ustr" where
  "lit s = map of_char s"

text \<open>The rupee sign U+20B9, the no-break space U+00A0, and the ASCII characters the code names.\<close>

definition rupee :: nat where "rupee = 8377"
definition nbsp :: nat where "nbsp = 160"
definition space :: nat where "space = 32"
definition comma :: nat where "comma = 44"
definition dot :: nat where "dot = 46"

text \<open>
  \<^verbatim>\<open>str.isspace\<close> on one code point; it is also the class \<^verbatim>\<open>\s\<close> of a
  \<^verbatim>\<open>str\<close> pattern and what \<^verbatim>\<open>str.strip()\<close> removes.
\<close>

definition isspace :: "nat \<Rightarrow> bool" where
  "isspace c \<longleftrightarrow>
     (9 \<le> c \<and> c \<le> 13) \<or> (28 \<le> c \<and> c \<le> 32) \<or> c = 133 \<or> c = 160 \<or> c = 5760 \<or>
     (8192 \<le> c \<and> c \<le> 8202) \<or> c = 8232 \<or> c = 8233 \<or> c = 8239 \<or> c = 8287 \<or> c = 12288"

text \<open>
  The class \<^verbatim>\<open>\d\<close> of a \<^verbatim>\<open>str\<close> pattern is every Unicode decimal digit
  (category Nd), and \<^verbatim>\<open>float()\<close> reads each of them by its digit value. The digits
  come in runs of ten; \<open>decimal_zeros\<close> lists the code point of the zero of each run
  (Unicode 14.0).
\<close>

definition decimal_zeros :: "nat list" where
  "decimal_zeros =
     [48, 1632, 1776, 1984, 2406, 2534, 2662, 2790, 2918, 3046, 3174, 3302, 3430, 3558,
      3664, 3792, 3872, 4160, 4240, 6112, 6160, 6470, 6608, 6784, 6800, 6992, 7088, 7232,
      7248, 42528, 43216, 43264, 43472, 43504, 43600, 44016, 65296, 66720, 68912, 69734,
      69872, 69942, 70096, 70384, 70736, 70864, 71248, 71360, 71472, 71904, 72016, 72784,
      73040, 73120, 92768, 92864, 93008, 120782, 120792, 120802, 120812, 120822, 123200,
      123632, 125264, 130032]"

definition todecimal :: "nat \<Rightarrow> nat option" where
  "todecimal c =
     (case find (\<lambda>z. z \<le> c \<and> c < z + 10) decimal_zeros of
        None \<Rightarrow> None
      | Some z \<Rightarrow> Some (c - z))"

definition isdecimal :: "nat \<Rightarrow> bool" where
  "isdecimal c \<longleftrightarrow> todecimal c \<noteq> None"

text \<open>\<^verbatim>\<open>s.replace(a, b)\<close> for single characters, \<^verbatim>\<open>s.replace(',', '')\<close>, \<^verbatim>\<open>s.strip()\<close>.\<close>

definition replace_char :: "nat \<Rightarrow> nat \<Rightarrow> ustr \<Rightarrow> ustr" where
  "replace_char a b s = map (\<lambda>c. if c = a then b else c) s"

definition remove_char :: "nat \<Rightarrow> ustr \<Rightarrow> ustr" where
  "remove_char a s = filter (\<lambda>c. c \<noteq> a) s"

definition strip :: "ustr \<Rightarrow> ustr" where
  "strip s = rev (dropWhile isspace (rev (dropWhile isspace s)))"

text \<open>
  \<^verbatim>\<open>needle in hay\<close> for strings, and \<^verbatim>\<open>str.lower()\<close>. Only two code points
  beyond ASCII have a lower-case form that contains an ASCII character: U+0130 (to
  \<^verbatim>\<open>i\<close> followed by U+0307) and the Kelvin sign U+212A (to \<^verbatim>\<open>k\<close>). Every other
  code point beyond ASCII is left as it is, which no test against an ASCII fragment can
  observe.
\<close>

fun starts_with :: "ustr \<Rightarrow> ustr \<Rightarrow> bool" where
  "starts_with [] hay \<longleftrightarrow> True"
| "starts_with (n # ns) [] \<longleftrightarrow> False"
| "starts_with (n # ns) (c # cs) \<longleftrightarrow> n = c \<and> starts_with ns cs"

fun contains :: "ustr \<Rightarrow> ustr \<Rightarrow> bool" where
  "contains needle [] \<longleftrightarrow> needle = []"
| "contains needle (c # cs) \<longleftrightarrow> starts_with needle (c # cs) \<or> contains needle cs"

definition lower_char :: "nat \<Rightarrow> ustr" where
  "lower_char c =
     (if 65 \<le> c \<and> c \<le> 90 then [c + 32]
      else if c = 304 then [105, 775]
      else if c = 8490 then [107]
      else [c])"

definition lower :: "ustr \<Rightarrow> ustr" where
  "lower s = concat (map lower_char s)"

section \<open>The regular expressions of the price extractors\<close>

text \<open>
  The three patterns of the source use literals, alternation, \<^verbatim>\<open>?\<close>, one capture
  group, and the greedy repetitions \<^verbatim>\<open>\s*\<close>, \<^verbatim>\<open>[\d,]+\<close> and \<^verbatim>\<open>\d{1,2}\<close> of a
  character class. They are compiled with \<^verbatim>\<open>re.IGNORECASE\<close>.
\<close>

datatype charclass = Whitespace | Digit | DigitOrComma

fun in_class :: "charclass \<Rightarrow> nat \<Rightarrow> bool" where
  "in_class Whitespace c \<longleftrightarrow> isspace c"
| "in_class Digit c \<longleftrightarrow> isdecimal c"
| "in_class DigitOrComma c \<longleftrightarrow> isdecimal c \<or> c = comma"

datatype regex =
    Str ustr
  | Seq regex regex
  | Alt regex regex
  | Opt regex
  | Star charclass
  | Plus charclass
  | Rep charclass nat nat
  | Group regex

text \<open>
  A literal under \<^verbatim>\<open>re.IGNORECASE\<close> matches a character whose simple lower case is
  the literal's; \<^verbatim>\<open>i\<close> also matches U+0131 and \<^verbatim>\<open>s\<close> also matches U+017F (the
  equivalences the \<^verbatim>\<open>re\<close> compiler adds). U+0130 and U+212A are the only code
  points beyond ASCII whose simple lower case is an ASCII letter.
\<close>

definition sre_lower :: "nat \<Rightarrow> nat" where
  "sre_lower c =
     (if 65 \<le> c \<and> c \<le> 90 then c + 32
      else if c = 304 then 105
      else if c = 8490 then 107
      else c)"

definition lit_matches :: "nat \<Rightarrow> nat \<Rightarrow> bool" where
  "lit_matches p c =
     (let lo = sre_lower p in
      if lo = 105 then sre_lower c = 105 \<or> sre_lower c = 305
      else if lo = 115 then sre_lower c = 115 \<or> sre_lower c = 383
      else sre_lower c = lo)"

text \<open>The length of the longest prefix of \<open>s\<close> inside a class: what a greedy repetition takes first.\<close>

definition run :: "charclass \<Rightarrow> ustr \<Rightarrow> nat" where
  "run cl s = length (takeWhile (in_class cl) s)"

text \<open>
  \<open>ends r (s, g)\<close> lists, in the order in which the backtracking matcher tries them,
  every way \<open>r\<close> can match a prefix of \<open>s\<close>: the text left over and the text of group 1
  (\<open>g\<close> before the match). A greedy repetition tries the longest run first.
\<close>

fun ends :: "regex \<Rightarrow> ustr \<times> ustr option \<Rightarrow> (ustr \<times> ustr option) list" where
  "ends (Str p) (s, g) =
     (if length p \<le> length s \<and> list_all2 lit_matches p (take (length p) s)
      then [(drop (length p) s, g)] else [])"
| "ends (Seq a b) st = concat (map (ends b) (ends a st))"
| "ends (Alt a b) st = ends a st @ ends b st"
| "ends (Opt a) st = ends a st @ [st]"
| "ends (Star cl) (s, g) = map (\<lambda>n. (drop n s, g)) (rev [0 ..< Suc (run cl s)])"
| "ends (Plus cl) (s, g) = map (\<lambda>n. (drop n s, g)) (rev [1 ..< Suc (run cl s)])"
| "ends (Rep cl lo hi) (s, g) = map (\<lambda>n. (drop n s, g)) (rev [lo ..< Suc (min hi (run cl s))])"
| "ends (Group a) (s, g) =
     map (\<lambda>(s', _). (s', Some (take (length s - length s') s))) (ends a (s, g))"

text \<open>The match at the start of \<open>s\<close>: the first way, if there is one.\<close>

definition match_here :: "regex \<Rightarrow> ustr \<Rightarrow> (ustr \<times> ustr option) option" where
  "match_here r s = (case ends r (s, None) of [] \<Rightarrow> None | e # _ \<Rightarrow> Some e)"

text \<open>
  \<^verbatim>\<open>re.findall\<close> for a pattern with one group: scan from the left; at a match, yield
  the text of the group and go on behind the match; elsewhere move one character on.
\<close>

function findall :: "regex \<Rightarrow> ustr \<Rightarrow> ustr list" where
  "findall r s =
     (case match_here r s of
        None \<Rightarrow> (case s of [] \<Rightarrow> [] | _ # cs \<Rightarrow> findall r cs)
      | Some (s', g) \<Rightarrow>
          (case g of None \<Rightarrow> [] | Some m \<Rightarrow> m) #
          (if length s' < length s then findall r s'
           else (case s of [] \<Rightarrow> [] | _ # cs \<Rightarrow> findall r cs)))"
  by pat_completeness auto
termination
  by (relation "measure (\<lambda>(r, s). length s)") auto

declare findall.simps [simp del]

text \<open>
  The patterns, as the source writes them:
  \<^verbatim>\<open>(?:R|Rs\.?|INR)\s*([\d,]+(?:\.\d{1,2})?)\<close> with the rupee sign for \<^verbatim>\<open>R\<close>,
  \<^verbatim>\<open>([\d,]+)\s*(?:Rs\.?|INR)\<close> and \<^verbatim>\<open>Price:\s*([\d,]+)\<close>.
\<close>

definition prefix_pattern :: regex where
  "prefix_pattern =
     Seq (Alt (Str [rupee]) (Alt (Seq (Str (lit ''Rs'')) (Opt (Str [dot]))) (Str (lit ''INR''))))
       (Seq (Star Whitespace)
         (Group (Seq (Plus DigitOrComma) (Opt (Seq (Str [dot]) (Rep Digit 1 2))))))"

definition suffix_pattern :: regex where
  "suffix_pattern =
     Seq (Group (Plus DigitOrComma))
       (Seq (Star Whitespace)
         (Alt (Seq (Str (lit ''Rs'')) (Opt (Str [dot]))) (Str (lit ''INR''))))"

definition label_pattern :: regex where
  "label_pattern =
     Seq (Str (lit ''Price:'')) (Seq (Star Whitespace) (Group (Plus DigitOrComma)))"

section \<open>The price extractors\<close>

text \<open>
  \<^verbatim>\<open>float(s)\<close> on the strings the extractors pass to it: decimal digits with at
  most one dot (group 1 with its commas removed). Surrounding white space is ignored,
  a string with no digit raises \<^verbatim>\<open>ValueError\<close> (\<open>None\<close>). The value is the decimal
  the string denotes, as a rational; the rounding of the source's double to 53 bits,
  and its overflow to infinity beyond 308 digits, are not modelled. The comparisons of
  the extractors against 49, 50, 2023, 2024, 2025 and 10000000 come out the same on the
  double as on the decimal, for a decimal with at most two fraction digits.
\<close>

fun digits_value :: "nat \<Rightarrow> ustr \<Rightarrow> nat option" where
  "digits_value acc [] = Some acc"
| "digits_value acc (c # cs) =
     (case todecimal c of None \<Rightarrow> None | Some d \<Rightarrow> digits_value (10 * acc + d) cs)"

definition py_float :: "ustr \<Rightarrow> rat option" where
  "py_float s =
     (let t = strip s;
          ip = takeWhile (\<lambda>c. c \<noteq> dot) t;
          rest = dropWhile (\<lambda>c. c \<noteq> dot) t;
          fp = tl rest
      in if ip = [] \<and> fp = [] then None
         else (case (digits_value 0 ip, digits_value 0 fp) of
                 (Some a, Some b) \<Rightarrow> Some (of_nat a + of_nat b / 10 ^ length fp)
               | _ \<Rightarrow> None))"

text \<open>
  \<^verbatim>\<open>FallbackScraper._parse_price\<close>. The inner loop over the matches of one pattern
  returns at the first value inside the range; a match that \<^verbatim>\<open>float\<close> rejects is
  skipped.
\<close>

fun parse_price_matches :: "ustr list \<Rightarrow> rat option" where
  "parse_price_matches [] = None"
| "parse_price_matches (m # ms) =
     (let clean = remove_char comma m in
      case py_float clean of
        None \<Rightarrow> parse_price_matches ms
      | Some val \<Rightarrow>
          if val > 49 \<and> val < 10000000 then Some val else parse_price_matches ms)"

fun parse_price_patterns :: "regex list \<Rightarrow> ustr \<Rightarrow> rat option" where
  "parse_price_patterns [] text = None"
| "parse_price_patterns (pat # pats) text =
     (case parse_price_matches (findall pat text) of
        Some val \<Rightarrow> Some val
      | None \<Rightarrow> parse_price_patterns pats text)"

definition parse_price :: "ustr option \<Rightarrow> rat" where
  "parse_price text_opt =
     (case text_opt of
        None \<Rightarrow> 0
      | Some text \<Rightarrow>
          if text = [] then 0
          else (let text' = strip (replace_char nbsp space text) in
                case parse_price_patterns [prefix_pattern, suffix_pattern] text' of
                  Some val \<Rightarrow> val
                | None \<Rightarrow> 0))"

text \<open>\<^verbatim>\<open>ScraperService._extract_price\<close>.\<close>

fun extract_price_matches :: "ustr list \<Rightarrow> rat option" where
  "extract_price_matches [] = None"
| "extract_price_matches (m # ms) =
     (let clean_val = strip (remove_char comma m) in
      case py_float clean_val of
        None \<Rightarrow> extract_price_matches ms
      | Some val \<Rightarrow>
          if val > 50 \<and> val \<noteq> 2023 \<and> val \<noteq> 2024 \<and> val \<noteq> 2025 then Some val
          else extract_price_matches ms)"

fun extract_price_patterns :: "regex list \<Rightarrow> ustr \<Rightarrow> rat option" where
  "extract_price_patterns [] text = None"
| "extract_price_patterns (pat # pats) text =
     (case extract_price_matches (findall pat text) of
        Some val \<Rightarrow> Some val
      | None \<Rightarrow> extract_price_patterns pats text)"

definition extract_price :: "ustr \<Rightarrow> rat" where
  "extract_price text =
     (if text = [] then 0
      else (let text' = replace_char nbsp space text in
            case extract_price_patterns [prefix_pattern, label_pattern] text' of
              Some val \<Rightarrow> val
            | None \<Rightarrow> 0))"

section \<open>Price records and marketplace identification\<close>

text \<open>
  The dictionaries the scrapers build and the \<^verbatim>\<open>PriceSnapshot\<close> of the API have the
  same fields. \<^verbatim>\<open>last_updated\<close> (the wall clock at extraction) is left out. A
  dictionary without the key \<^verbatim>\<open>images\<close> or \<^verbatim>\<open>description\<close> reads as \<open>[]\<close> or
  \<open>None\<close>; nothing in the source reads these keys from a dictionary.
\<close>

record price_snapshot =
  marketplace :: string
  price :: rat
  currency :: string
  url :: ustr
  description :: "ustr option"
  images :: "ustr list"
  in_stock :: bool
  original_price :: "rat option"
  discount_percentage :: "rat option"

text \<open>Python truthiness of a string that may be \<^verbatim>\<open>None\<close>, and \<^verbatim>\<open>a or b\<close> on such strings.\<close>

definition truthy :: "ustr option \<Rightarrow> bool" where
  "truthy x = (case x of None \<Rightarrow> False | Some s \<Rightarrow> s \<noteq> [])"

definition py_or :: "ustr option \<Rightarrow> ustr option \<Rightarrow> ustr option" where
  "py_or a b = (if truthy a then a else b)"

text \<open>\<^verbatim>\<open>FallbackScraper._identify_marketplace\<close>.\<close>

definition identify_marketplace :: "ustr \<Rightarrow> string option" where
  "identify_marketplace link =
     (let u = lower link in
      if contains (lit ''amazon.in'') u then Some ''Amazon''
      else if contains (lit ''flipkart.com'') u then Some ''Flipkart''
      else if contains (lit ''croma.com'') u then Some ''Croma''
      else if contains (lit ''reliancedigital'') u then Some ''Reliance Digital''
      else if contains (lit ''jiomart'') u then Some ''JioMart''
      else if contains (lit ''tatacliq'') u then Some ''Tata Cliq''
      else None)"

section \<open>The outside world: HTTP responses and parsed pages\<close>

text \<open>
  A request either raises or yields a status code and a page. A page is given by what
  the selectors of the source find in it: the list of result elements, and for each
  element the values its field selectors yield. The requests are keyed by the query
  they carry. An element of a listing page may be \<open>Inl e\<close>: evaluating the selectors
  on it raises \<open>e\<close>.
\<close>

datatype exn = RequestException | KeyError | AttributeError | IndexError | SelectorError

datatype 'a outcome = Falls | Returns 'a | Raises exn

record ddg_anchor =
  anchor_text :: ustr
  anchor_href :: "ustr option"

record ddg_result =
  title_tag :: "ddg_anchor option"
  snippet_tag :: "ustr option"

record amazon_item =
  item_title :: "ustr option"
  item_price_text :: "ustr option"
  item_link :: "ustr option"
  item_img :: "ustr option"

text \<open>
  A Flipkart card: the price text, the anchors each of the three link selectors finds
  (each anchor with its \<^verbatim>\<open>href\<close>, if it has one), and the two image selectors.
\<close>

record flipkart_card =
  card_price_text :: "ustr option"
  card_links_1fQZEK :: "ustr option list"
  card_links_s1Q9rs :: "ustr option list"
  card_links_wjcEIp :: "ustr option list"
  card_img_396cs4 :: "ustr option"
  card_img_2r_T1I :: "ustr option"

record world =
  ddg_post :: "ustr \<Rightarrow> exn + nat \<times> ddg_result list"
  amazon_get :: "ustr \<Rightarrow> exn + nat \<times> (exn + amazon_item) list"
  flipkart_get :: "ustr \<Rightarrow> exn + nat \<times> (exn + flipkart_card) list"

section \<open>The search-engine aggregator\<close>

text \<open>
  The loop of \<^verbatim>\<open>scrape_search_engine\<close> over \<^verbatim>\<open>results[:12]\<close>. It sits inside the
  \<^verbatim>\<open>try\<close>: \<^verbatim>\<open>title_tag['href']\<close> on an anchor without \<^verbatim>\<open>href\<close> raises and ends
  the loop with the products collected so far.
\<close>

fun search_engine_loop :: "ddg_result list \<Rightarrow> price_snapshot list \<Rightarrow> price_snapshot list \<times> exn option" where
  "search_engine_loop [] products = (products, None)"
| "search_engine_loop (res # rest) products =
     (case title_tag res of
        None \<Rightarrow> search_engine_loop rest products
      | Some tt \<Rightarrow>
          (case anchor_href tt of
             None \<Rightarrow> (products, Some KeyError)
           | Some link \<Rightarrow>
               (let title = anchor_text tt;
                    snippet = (case snippet_tag res of Some sn \<Rightarrow> sn | None \<Rightarrow> []);
                    full_text = title @ [space] @ snippet;
                    mp = identify_marketplace link;
                    pr = parse_price (Some full_text)
                in if mp \<noteq> None \<or> pr > 0
                   then search_engine_loop rest
                          (products @
                           [\<lparr>marketplace = (case mp of Some name \<Rightarrow> name | None \<Rightarrow> ''Online Store''),
                             price = pr, currency = ''INR'', url = link, description = None,
                             images = [], in_stock = True, original_price = None,
                             discount_percentage = None\<rparr>])
                   else search_engine_loop rest products)))"

definition scrape_search_engine_try :: "world \<Rightarrow> ustr \<Rightarrow> price_snapshot list \<times> price_snapshot list outcome" where
  "scrape_search_engine_try w query =
     (let q = query @ lit '' price india buy online'' in
      case ddg_post w q of
        Inl e \<Rightarrow> ([], Raises e)
      | Inr (status_code, results) \<Rightarrow>
          if status_code \<noteq> 200 then ([], Returns [])
          else (case search_engine_loop (take 12 results) [] of
                  (products, None) \<Rightarrow> (products, Falls)
                | (products, Some e) \<Rightarrow> (products, Raises e)))"

text \<open>\<^verbatim>\<open>except Exception\<close> catches whatever the block raised; then \<^verbatim>\<open>return products\<close>.\<close>

definition scrape_search_engine :: "world \<Rightarrow> ustr \<Rightarrow> exn + price_snapshot list" where
  "scrape_search_engine w query =
     (case scrape_search_engine_try w query of
        (products, Returns r) \<Rightarrow> Inr r
      | (products, Raises e) \<Rightarrow> Inr products
      | (products, Falls) \<Rightarrow> Inr products)"

section \<open>The direct marketplace scrapers\<close>

fun amazon_loop :: "(exn + amazon_item) list \<Rightarrow> price_snapshot list \<Rightarrow> price_snapshot list \<times> exn option" where
  "amazon_loop [] products = (products, None)"
| "amazon_loop (Inl e # rest) products = (products, Some e)"
| "amazon_loop (Inr item # rest) products =
     (if \<not> truthy (item_title item) then amazon_loop rest products
      else (let pr = parse_price (item_price_text item);
                full_link = (case item_link item of
                               None \<Rightarrow> []
                             | Some link \<Rightarrow> if link \<noteq> [] then lit ''https://www.amazon.in'' @ link else []);
                imgs = (case item_img item of None \<Rightarrow> [] | Some img \<Rightarrow> if img \<noteq> [] then [img] else [])
            in if pr > 0
               then amazon_loop rest
                      (products @
                       [\<lparr>marketplace = ''Amazon'', price = pr, currency = ''INR'', url = full_link,
                         description = None, images = imgs, in_stock = True, original_price = None,
                         discount_percentage = None\<rparr>])
               else amazon_loop rest products))"

definition scrape_amazon_try :: "world \<Rightarrow> ustr \<Rightarrow> price_snapshot list \<times> price_snapshot list outcome" where
  "scrape_amazon_try w query =
     (case amazon_get w query of
        Inl e \<Rightarrow> ([], Raises e)
      | Inr (status_code, items) \<Rightarrow>
          if status_code \<noteq> 200 then ([], Returns [])
          else (case amazon_loop (take 4 items) [] of
                  (products, None) \<Rightarrow> (products, Falls)
                | (products, Some e) \<Rightarrow> (products, Raises e)))"

definition scrape_amazon :: "world \<Rightarrow> ustr \<Rightarrow> exn + price_snapshot list" where
  "scrape_amazon w query =
     (case scrape_amazon_try w query of
        (products, Returns r) \<Rightarrow> Inr r
      | (products, Raises e) \<Rightarrow> Inr products
      | (products, Falls) \<Rightarrow> Inr products)"

text \<open>
  \<^verbatim>\<open>a or b or c\<close> on selector lists takes the first one that is not empty;
  \<^verbatim>\<open>.attrib\<close> reads the first element of the list.
\<close>

definition first_nonempty :: "'a list \<Rightarrow> 'a list \<Rightarrow> 'a list \<Rightarrow> 'a list" where
  "first_nonempty a b c = (if a \<noteq> [] then a else if b \<noteq> [] then b else c)"

fun flipkart_loop :: "(exn + flipkart_card) list \<Rightarrow> nat \<Rightarrow> price_snapshot list \<Rightarrow> price_snapshot list \<times> exn option" where
  "flipkart_loop [] count products = (products, None)"
| "flipkart_loop (c # rest) count products =
     (if count \<ge> 4 then (products, None)
      else (case c of
              Inl e \<Rightarrow> (products, Some e)
            | Inr fk_card \<Rightarrow>
                if \<not> truthy (card_price_text fk_card) then flipkart_loop rest count products
                else (case first_nonempty (card_links_1fQZEK fk_card) (card_links_s1Q9rs fk_card)
                             (card_links_wjcEIp fk_card) of
                        [] \<Rightarrow> flipkart_loop rest count products
                      | href # _ \<Rightarrow>
                          (let link = (case href of None \<Rightarrow> [] | Some h \<Rightarrow> h);
                               full_link = (if link \<noteq> [] then lit ''https://www.flipkart.com'' @ link else []);
                               img = py_or (card_img_396cs4 fk_card) (card_img_2r_T1I fk_card);
                               imgs = (case img of None \<Rightarrow> [] | Some i \<Rightarrow> if i \<noteq> [] then [i] else []);
                               pr = parse_price (card_price_text fk_card)
                           in if pr > 0
                              then flipkart_loop rest (count + 1)
                                     (products @
                                      [\<lparr>marketplace = ''Flipkart'', price = pr, currency = ''INR'',
                                        url = full_link, description = None, images = imgs,
                                        in_stock = True, original_price = None,
                                        discount_percentage = None\<rparr>])
                              else flipkart_loop rest count products))))"

definition scrape_flipkart_try :: "world \<Rightarrow> ustr \<Rightarrow> price_snapshot list \<times> price_snapshot list outcome" where
  "scrape_flipkart_try w query =
     (case flipkart_get w query of
        Inl e \<Rightarrow> ([], Raises e)
      | Inr (status_code, cards) \<Rightarrow>
          if status_code \<noteq> 200 then ([], Returns [])
          else (case flipkart_loop cards 0 [] of
                  (products, None) \<Rightarrow> (products, Falls)
                | (products, Some e) \<Rightarrow> (products, Raises e)))"

definition scrape_flipkart :: "world \<Rightarrow> ustr \<Rightarrow> exn + price_snapshot list" where
  "scrape_flipkart w query =
     (case scrape_flipkart_try w query of
        (products, Returns r) \<Rightarrow> Inr r
      | (products, Raises e) \<Rightarrow> Inr products
      | (products, Falls) \<Rightarrow> Inr products)"

section \<open>The fallback orchestrator\<close>

text \<open>
  The orchestrators call their scrapers as methods that a test may replace. A scraper
  is a function of the query and of a state \<open>'s\<close> that stands for everything outside
  (call counters, the network): it returns a list or raises, and leaves a new state.
  The orchestrator threads the state through the calls it makes, in the order in which
  it makes them, so a call that is not made leaves no trace in the state.
\<close>

type_synonym 's scraper = "ustr \<Rightarrow> 's \<Rightarrow> (exn + price_snapshot list) \<times> 's"

text \<open>The deduplication loop of \<^verbatim>\<open>FallbackScraper.search\<close>, with its \<^verbatim>\<open>seen_urls\<close> set.\<close>

fun dedupe_loop :: "price_snapshot list \<Rightarrow> price_snapshot list \<Rightarrow> ustr set \<Rightarrow> price_snapshot list" where
  "dedupe_loop [] unique_results seen_urls = unique_results"
| "dedupe_loop (r # rs) unique_results seen_urls =
     (if url r \<notin> seen_urls
      then dedupe_loop rs (unique_results @ [r]) (insert (url r) seen_urls)
      else dedupe_loop rs unique_results seen_urls)"

definition dedupe :: "price_snapshot list \<Rightarrow> price_snapshot list" where
  "dedupe results = dedupe_loop results [] {}"

text \<open>
  \<^verbatim>\<open>FallbackScraper.search\<close>. The aggregator is called outside any \<^verbatim>\<open>try\<close>; each
  direct scraper is called inside its own \<^verbatim>\<open>try\<close>, whose handler only prints. The
  randomised delays before the direct scrapers are not modelled.
\<close>

definition fallback_search ::
  "'s scraper \<Rightarrow> 's scraper \<Rightarrow> 's scraper \<Rightarrow> ustr \<Rightarrow> 's \<Rightarrow> (exn + price_snapshot list) \<times> 's" where
  "fallback_search search_engine amazon flipkart product_name s0 =
     (case search_engine product_name s0 of
        (Inl e, s1) \<Rightarrow> (Inl e, s1)
      | (Inr search_results, s1) \<Rightarrow>
          (let results = [] @ search_results in
           if length results < 2
           then (case amazon product_name s1 of
                   (a, s2) \<Rightarrow>
                     (let results1 = (case a of Inl e \<Rightarrow> results | Inr amz_results \<Rightarrow> results @ amz_results) in
                      case flipkart product_name s2 of
                        (f, s3) \<Rightarrow>
                          (let results2 = (case f of Inl e \<Rightarrow> results1 | Inr fk_results \<Rightarrow> results1 @ fk_results)
                           in (Inr (dedupe results2), s3))))
           else (Inr (dedupe results), s1)))"

text \<open>The scrapers of a given world touch no state of their own.\<close>

definition stateless :: "(ustr \<Rightarrow> exn + price_snapshot list) \<Rightarrow> 's scraper" where
  "stateless f = (\<lambda>query s. (f query, s))"

definition fallback_tier :: "world \<Rightarrow> 's scraper" where
  "fallback_tier w =
     fallback_search (stateless (scrape_search_engine w)) (stateless (scrape_amazon w))
       (stateless (scrape_flipkart w))"

text \<open>
  A scraper that records its invocation in a log, for counting calls: the state is the
  list of the calls made so far.
\<close>

datatype call = CallSearchEngine | CallAmazon | CallFlipkart | CallFirecrawl | CallFallback

definition logged :: "call \<Rightarrow> (ustr \<Rightarrow> exn + price_snapshot list) \<Rightarrow> call list scraper" where
  "logged c f = (\<lambda>query log. (f query, log @ [c]))"

section \<open>The primary adapter and the top-level search\<close>

text \<open>
  What the hosted API returns: a dictionary (with or without the key \<^verbatim>\<open>data\<close>), a
  list, or something else. An item is a dictionary, of which the source reads
  \<^verbatim>\<open>url\<close>, \<^verbatim>\<open>title\<close>, \<^verbatim>\<open>description\<close> and \<^verbatim>\<open>metadata['og:image']\<close>, or it is
  not a dictionary, and \<^verbatim>\<open>item.get\<close> raises.
\<close>

record fc_fields =
  fc_url :: "ustr option"
  fc_title :: "ustr option"
  fc_description :: "ustr option"
  fc_og_image :: "ustr option"

datatype fc_item = ItemDict fc_fields | ItemOther

datatype fc_response = FcDict "fc_item list option" | FcList "fc_item list" | FcOther

type_synonym 's firecrawl = "ustr \<Rightarrow> 's \<Rightarrow> (exn + fc_response) \<times> 's"

definition get_default :: "ustr option \<Rightarrow> ustr" where
  "get_default x = (case x of None \<Rightarrow> [] | Some v \<Rightarrow> v)"

text \<open>\<^verbatim>\<open>ScraperService._parse_results\<close>.\<close>

fun parse_results_loop :: "fc_item list \<Rightarrow> price_snapshot list \<Rightarrow> exn + price_snapshot list" where
  "parse_results_loop [] snapshots = Inr snapshots"
| "parse_results_loop (ItemOther # rest) snapshots = Inl AttributeError"
| "parse_results_loop (ItemDict item # rest) snapshots =
     (let link = get_default (fc_url item);
          title = get_default (fc_title item);
          descr = get_default (fc_description item);
          content = title @ [space] @ descr;
          mp = (if contains (lit ''amazon.in'') link then ''Amazon''
                else if contains (lit ''flipkart.com'') link then ''Flipkart''
                else if contains (lit ''jiomart'') link then ''JioMart''
                else if contains (lit ''croma'') link then ''Croma''
                else ''Online Store'');
          pr = extract_price content;
          imgs = (case fc_og_image item of None \<Rightarrow> [] | Some img \<Rightarrow> [img])
      in parse_results_loop rest
           (snapshots @
            [\<lparr>marketplace = mp, price = pr, currency = ''INR'', url = link,
              description = Some (if descr \<noteq> [] then descr else title), images = imgs,
              in_stock = (pr > 0), original_price = None, discount_percentage = None\<rparr>]))"

definition parse_results :: "fc_item list \<Rightarrow> exn + price_snapshot list" where
  "parse_results items = parse_results_loop items []"

text \<open>
  Strategy 1 of \<^verbatim>\<open>search_products\<close>: the block under \<^verbatim>\<open>if self.app\<close>, with its
  \<^verbatim>\<open>try\<close>. It leaves \<^verbatim>\<open>results\<close> empty when there is no client, when the call or
  the parsing raises, and when there are no items.
\<close>

definition firecrawl_strategy :: "'s firecrawl option \<Rightarrow> ustr \<Rightarrow> 's \<Rightarrow> price_snapshot list \<times> 's" where
  "firecrawl_strategy app product_name s0 =
     (case app of
        None \<Rightarrow> ([], s0)
      | Some app_search \<Rightarrow>
          (let query = product_name @ lit '' price buy online amazon.in flipkart.com'' in
           case app_search query s0 of
             (Inl e, s1) \<Rightarrow> ([], s1)
           | (Inr fc_results, s1) \<Rightarrow>
               (let items = (case fc_results of
                               FcDict (Some d) \<Rightarrow> d
                             | FcDict None \<Rightarrow> []
                             | FcList l \<Rightarrow> l
                             | FcOther \<Rightarrow> [])
                in if items \<noteq> []
                   then (case parse_results items of
                           Inl e \<Rightarrow> ([], s1)
                         | Inr snapshots \<Rightarrow> (snapshots, s1))
                   else ([], s1))))"

text \<open>\<^verbatim>\<open>ScraperService.search_products\<close>.\<close>

definition search_products ::
  "'s firecrawl option \<Rightarrow> 's scraper \<Rightarrow> ustr \<Rightarrow> 's \<Rightarrow> price_snapshot list \<times> 's" where
  "search_products app fallback product_name s0 =
     (case firecrawl_strategy app product_name s0 of
        (results, s1) \<Rightarrow>
          if results = []
          then (case fallback product_name s1 of
                  (Inl e, s2) \<Rightarrow> (results, s2)
                | (Inr fallback_results, s2) \<Rightarrow>
                    if fallback_results \<noteq> [] then (results @ fallback_results, s2)
                    else (results, s2))
          else (results, s1))"

section \<open>The search endpoint\<close>

text \<open>
  \<^verbatim>\<open>product_name.split()[0]\<close>: the first white-space delimited token; \<open>None\<close> when
  there is none, where the source raises \<^verbatim>\<open>IndexError\<close>.
\<close>

definition first_token :: "ustr \<Rightarrow> ustr option" where
  "first_token s =
     (let t = dropWhile isspace s in
      if t = [] then None else Some (takeWhile (\<lambda>c. \<not> isspace c) t))"

record search_response =
  brand :: ustr
  confidence_score :: rat
  prices :: "price_snapshot list"
  best_price :: "price_snapshot option"
  metadata_note :: string

text \<open>
  The loop of \<^verbatim>\<open>search\<close> over \<^verbatim>\<open>real_prices\<close>. \<open>min_price\<close> is \<open>None\<close> while it is
  still \<^verbatim>\<open>float('inf')\<close>. A \<^verbatim>\<open>PriceSnapshot\<close> is built from five keys of the
  dictionary; the other fields take their defaults.
\<close>

definition make_snapshot :: "price_snapshot \<Rightarrow> price_snapshot" where
  "make_snapshot p =
     \<lparr>marketplace = marketplace p, price = price p, currency = currency p, url = url p,
      description = None, images = [], in_stock = True, original_price = None,
      discount_percentage = None\<rparr>"

fun adapt_loop ::
  "price_snapshot list \<Rightarrow> price_snapshot list \<Rightarrow> price_snapshot option \<Rightarrow> rat option \<Rightarrow>
   price_snapshot list \<times> price_snapshot option" where
  "adapt_loop [] price_snapshots best_price_snapshot min_price = (price_snapshots, best_price_snapshot)"
| "adapt_loop (p # ps) price_snapshots best_price_snapshot min_price =
     (let snapshot = make_snapshot p in
      if price p > 0 \<and> (case min_price of None \<Rightarrow> True | Some m \<Rightarrow> price p < m)
      then adapt_loop ps (price_snapshots @ [snapshot]) (Some snapshot) (Some (price p))
      else adapt_loop ps (price_snapshots @ [snapshot]) best_price_snapshot min_price)"

definition build_response :: "ustr \<Rightarrow> price_snapshot list \<Rightarrow> search_response" where
  "build_response brand_name real_prices =
     (case adapt_loop real_prices [] None None of
        (price_snapshots, best_price_snapshot) \<Rightarrow>
          \<lparr>brand = brand_name,
            confidence_score = (if price_snapshots \<noteq> [] then 8 / 10 else 1 / 10),
            prices = price_snapshots,
            best_price = best_price_snapshot,
            metadata_note = (if price_snapshots \<noteq> [] then ''Live Scraping via Firecrawl''
                             else ''No results found or Scraper inactive'')\<rparr>)"

text \<open>
  \<^verbatim>\<open>search\<close> of the API, from the product name of the request. The product
  identifier (a SHA-256 digest) is left out.
\<close>

definition search ::
  "(ustr \<Rightarrow> 's \<Rightarrow> price_snapshot list \<times> 's) \<Rightarrow> ustr \<Rightarrow> 's \<Rightarrow> (exn + search_response) \<times> 's" where
  "search scraper_search_products product_name s0 =
     (case first_token product_name of
        None \<Rightarrow> (Inl IndexError, s0)
      | Some brand_name \<Rightarrow>
          (case scraper_search_products product_name s0 of
             (real_prices, s1) \<Rightarrow> (Inr (build_response brand_name real_prices), s1)))"

section \<open>Reference notions for the properties\<close>



text \<open>
  Deduplication as the specification words it: keep the first occurrence of each URL,
  in the order of the input.
\<close>

function first_seen :: "price_snapshot list \<Rightarrow> price_snapshot list" where
  "first_seen [] = []"
| "first_seen (r # rs) = r # first_seen (filter (\<lambda>x. url x \<noteq> url r) rs)"
  by pat_completeness auto
termination
  by (relation "measure length") (auto simp: less_Suc_eq_le)

text \<open>What a scraper contributes to the merge: its list, or nothing when it raises.\<close>

definition collected :: "exn + price_snapshot list \<Rightarrow> price_snapshot list" where
  "collected r = (case r of Inl e \<Rightarrow> [] | Inr xs \<Rightarrow> xs)"

text \<open>
  What the aggregator lets through: a record with a price, or a record without one
  (price 0) whose marketplace is a known one.
\<close>

definition priced_or_known :: "price_snapshot \<Rightarrow> bool" where
  "priced_or_known r \<longleftrightarrow> 0 < price r \<or> (price r = 0 \<and> marketplace r \<noteq> ''Online Store'')"

text \<open>
  The invariant of the loop of \<^verbatim>\<open>search\<close>: over the snapshots built so far, the best
  one is the cheapest of those with a price, and \<open>min_price\<close> is its price.
\<close>

definition best_ok :: "price_snapshot list \<Rightarrow> price_snapshot option \<Rightarrow> rat option \<Rightarrow> bool" where
  "best_ok acc best m =
     (case best of
        None \<Rightarrow> m = None \<and> (\<forall>x\<in>set acc. price x = 0)
      | Some b \<Rightarrow> m = Some (price b) \<and> b \<in> set acc \<and> 0 < price b \<and>
          (\<forall>x\<in>set acc. price x \<noteq> 0 \<longrightarrow> price b \<le> price x))"

subsection \<open>Example inputs\<close>

definition record_at :: "ustr \<Rightarrow> price_snapshot" where
  "record_at link =
     \<lparr>marketplace = ''Online Store'', price = 100, currency = ''INR'', url = link,
      description = None, images = [], in_stock = True, original_price = None,
      discount_percentage = None\<rparr>"

definition item_at :: "ustr \<Rightarrow> ustr \<Rightarrow> fc_item" where
  "item_at link title =
     ItemDict \<lparr>fc_url = Some link, fc_title = Some title, fc_description = None, fc_og_image = None\<rparr>"

text \<open>A hosted API that answers every query with the given response and counts its calls.\<close>

definition firecrawl_stub :: "fc_response \<Rightarrow> call list firecrawl" where
  "firecrawl_stub resp = (\<lambda>query log. (Inr resp, log @ [CallFirecrawl]))"

text \<open>
  A world in which the search engine finds one Amazon page whose text carries no price,
  Amazon answers 503 and the request to Flipkart fails.
\<close>

definition world_no_price :: world where
  "world_no_price =
     \<lparr>ddg_post = (\<lambda>q. Inr (200,
         [\<lparr>title_tag = Some \<lparr>anchor_text = lit ''Sony Bravia TV'',
                               anchor_href = Some (lit ''https://www.amazon.in/dp/B0'')\<rparr>,
           snippet_tag = None\<rparr>])),
      amazon_get = (\<lambda>q. Inr (503, [])),
      flipkart_get = (\<lambda>q. Inl RequestException)\<rparr>"

text \<open>
  The end-to-end example of the specification: the search engine finds one Amazon
  listing with a price and one unrelated page without a price.
\<close>

definition world_end_to_end :: world where
  "world_end_to_end =
     \<lparr>ddg_post = (\<lambda>q. Inr (200,
         [\<lparr>title_tag = Some \<lparr>anchor_text = lit ''Sony Bravia TV'',
                               anchor_href = Some (lit ''https://www.amazon.in/dp/B0'')\<rparr>,
           snippet_tag = Some (lit ''Rs. 45,990'')\<rparr>,
          \<lparr>title_tag = Some \<lparr>anchor_text = lit ''Sony news'',
                               anchor_href = Some (lit ''https://example.org/news'')\<rparr>,
           snippet_tag = Some (lit ''a review'')\<rparr>])),
      amazon_get = (\<lambda>q. Inr (503, [])),
      flipkart_get = (\<lambda>q. Inl RequestException)\<rparr>"

text \<open>
  A world in which the second Amazon listing cannot be read, and the Flipkart page has
  no card.
\<close>

definition world_broken_listing :: world where
  "world_broken_listing =
     \<lparr>ddg_post = (\<lambda>q. Inl RequestException),
      amazon_get = (\<lambda>q. Inr (200,
         [Inr \<lparr>item_title = Some (lit ''TV''), item_price_text = Some ([rupee] @ lit ''1,200''),
               item_link = Some (lit ''/dp/1''), item_img = None\<rparr>,
          Inl SelectorError,
          Inr \<lparr>item_title = Some (lit ''TV 2''), item_price_text = Some ([rupee] @ lit ''1,300''),
               item_link = Some (lit ''/dp/2''), item_img = None\<rparr>])),
      flipkart_get = (\<lambda>q. Inr (200, []))\<rparr>"

section \<open>Evaluation\<close>

lemmas text_defs =
  lit_def rupee_def nbsp_def space_def comma_def dot_def isspace_def decimal_zeros_def
  todecimal_def isdecimal_def replace_char_def remove_char_def strip_def lower_char_def
  lower_def

lemmas regex_defs =
  sre_lower_def lit_matches_def run_def match_here_def findall.simps prefix_pattern_def
  suffix_pattern_def label_pattern_def

lemmas price_defs = py_float_def parse_price_def extract_price_def Let_def

lemmas pipeline_defs =
  search_products_def firecrawl_strategy_def fallback_tier_def fallback_search_def stateless_def
  scrape_search_engine_def scrape_search_engine_try_def scrape_amazon_def scrape_amazon_try_def
  scrape_flipkart_def scrape_flipkart_try_def identify_marketplace_def truthy_def py_or_def
  first_nonempty_def parse_results_def get_default_def dedupe_def collected_def logged_def
  firecrawl_stub_def item_at_def record_at_def

section \<open>The price extractors: what they can return\<close>

lemma parse_price_matches_range:
  "parse_price_matches ms = Some v \<Longrightarrow> 49 < v \<and> v < 10000000"
  by (induction ms) (auto simp: Let_def split: option.splits if_splits)

lemma parse_price_patterns_range:
  "parse_price_patterns pats text = Some v \<Longrightarrow> 49 < v \<and> v < 10000000"
  by (induction pats) (auto split: option.splits dest: parse_price_matches_range)

lemma parse_price_range: "parse_price t = 0 \<or> (49 < parse_price t \<and> parse_price t < 10000000)"
proof (cases t)
  case None
  then show ?thesis by (simp add: parse_price_def)
next
  case (Some body)
  show ?thesis
  proof (cases "parse_price_patterns [prefix_pattern, suffix_pattern] (strip (replace_char nbsp space body))")
    case None
    with Some show ?thesis by (simp add: parse_price_def Let_def del: parse_price_patterns.simps)
  next
    case (Some v)
    from parse_price_patterns_range [OF this] Some \<open>t = Some body\<close> show ?thesis
      by (simp add: parse_price_def Let_def del: parse_price_patterns.simps)
  qed
qed

lemma parse_price_nonneg: "0 \<le> parse_price t"
  using parse_price_range [of t] by auto

lemma extract_price_matches_range:
  "extract_price_matches ms = Some v \<Longrightarrow> 50 < v"
  by (induction ms) (auto simp: Let_def split: option.splits if_splits)

lemma extract_price_patterns_range:
  "extract_price_patterns pats text = Some v \<Longrightarrow> 50 < v"
  by (induction pats) (auto split: option.splits dest: extract_price_matches_range)

lemma extract_price_range: "extract_price t = 0 \<or> 50 < extract_price t"
proof (cases "extract_price_patterns [prefix_pattern, label_pattern] (replace_char nbsp space t)")
  case None
  then show ?thesis by (simp add: extract_price_def Let_def del: extract_price_patterns.simps)
next
  case (Some v)
  from extract_price_patterns_range [OF this] Some show ?thesis
    by (simp add: extract_price_def Let_def del: extract_price_patterns.simps)
qed

lemma extract_price_nonneg: "0 \<le> extract_price t"
  using extract_price_range [of t] by auto

text \<open>
  C2 (the code departs from the claim). The claim gives both extractors the open range
  (49, 10000000), so that a text whose only candidate is 99999999 yields 0. The
  fallback extractor \<open>parse_price\<close> does so; \<open>extract_price\<close>, the variant of the
  primary adapter and of page inspection, has no upper bound and returns 99999999,
  although its own comment lists phone numbers among the junk it filters. Both return
  0 on a candidate of 10.
\<close>

theorem extract_price_unbounded:
  "extract_price ([rupee] @ lit ''99999999'') = 99999999 \<and>
   parse_price (Some ([rupee] @ lit ''99999999'')) = 0 \<and>
   extract_price ([rupee] @ lit ''10'') = 0 \<and>
   parse_price (Some ([rupee] @ lit ''10'')) = 0"
  by (simp add: text_defs regex_defs price_defs)

section \<open>Marketplace identification\<close>

lemma identify_marketplace_known:
  "identify_marketplace link = Some name \<Longrightarrow> name \<noteq> ''Online Store''"
  by (auto simp: identify_marketplace_def Let_def split: if_splits)

text \<open>
  C7 (the code departs from the claim). The claim makes marketplace identification
  case-insensitive in every component. \<open>identify_marketplace\<close> of the fallback lowers
  the URL first and resolves \<^verbatim>\<open>https://WWW.AMAZON.IN/dp/x\<close> to Amazon; the result
  normalisation of the primary adapter tests the URL as it is and gives the same URL
  the generic name.
\<close>

theorem primary_marketplace_case_sensitive:
  "map marketplace (collected (parse_results [item_at (lit ''https://WWW.AMAZON.IN/dp/x'') (lit ''TV'')]))
     = [''Online Store''] \<and>
   identify_marketplace (lit ''https://WWW.AMAZON.IN/dp/x'') = Some ''Amazon''"
  by (simp add: text_defs regex_defs price_defs pipeline_defs)

section \<open>The two extractors compared\<close>









section \<open>Deduplication\<close>

lemma dedupe_loop_first_seen:
  "dedupe_loop rs acc seen = acc @ first_seen (filter (\<lambda>r. url r \<notin> seen) rs)"
proof (induction rs arbitrary: acc seen)
  case Nil
  then show ?case by simp
next
  case (Cons r rs)
  have "filter (\<lambda>x. url x \<notin> insert (url r) seen) rs =
        filter (\<lambda>x. url x \<noteq> url r) (filter (\<lambda>x. url x \<notin> seen) rs)"
    by (induction rs) auto
  with Cons show ?case by simp
qed

lemma dedupe_first_seen: "dedupe rs = first_seen rs"
  by (simp add: dedupe_def dedupe_loop_first_seen)

lemma set_first_seen: "set (first_seen rs) \<subseteq> set rs"
  by (induction rs rule: first_seen.induct) auto

lemma urls_first_seen: "url ` set (first_seen rs) = url ` set rs"
  by (induction rs rule: first_seen.induct) auto

lemma distinct_first_seen: "distinct (map url (first_seen rs))"
proof (induction rs rule: first_seen.induct)
  case 1
  then show ?case by simp
next
  case (2 r rs)
  have "url r \<notin> url ` set (first_seen (filter (\<lambda>x. url x \<noteq> url r) rs))"
    using set_first_seen [of "filter (\<lambda>x. url x \<noteq> url r) rs"] by auto
  with 2 show ?case by simp
qed

lemma set_dedupe: "set (dedupe rs) \<subseteq> set rs"
  by (simp add: dedupe_first_seen set_first_seen)

lemma fallback_search_distinct:
  "fallback_search e a f q s = (Inr rs, s') \<Longrightarrow> distinct (map url rs)"
  by (auto simp: fallback_search_def Let_def dedupe_first_seen distinct_first_seen
           split: prod.splits sum.splits if_splits)

lemma search_products_fallback:
  "fst (firecrawl_strategy app q s) = [] \<Longrightarrow>
   fst (search_products app fb q s) = collected (fst (fb q (snd (firecrawl_strategy app q s))))"
  by (auto simp: search_products_def collected_def split: prod.splits sum.splits)

section \<open>What the scrapers return\<close>

lemma scrape_amazon_eq:
  "scrape_amazon w q =
     Inr (case amazon_get w q of
            Inl e \<Rightarrow> []
          | Inr (status_code, items) \<Rightarrow>
              if status_code \<noteq> 200 then [] else fst (amazon_loop (take 4 items) []))"
  by (auto simp: scrape_amazon_def scrape_amazon_try_def split: sum.splits prod.splits option.splits)

lemma scrape_flipkart_eq:
  "scrape_flipkart w q =
     Inr (case flipkart_get w q of
            Inl e \<Rightarrow> []
          | Inr (status_code, cards) \<Rightarrow>
              if status_code \<noteq> 200 then [] else fst (flipkart_loop cards 0 []))"
  by (auto simp: scrape_flipkart_def scrape_flipkart_try_def split: sum.splits prod.splits option.splits)

lemma scrape_search_engine_eq:
  "scrape_search_engine w q =
     Inr (case ddg_post w (q @ lit '' price india buy online'') of
            Inl e \<Rightarrow> []
          | Inr (status_code, results) \<Rightarrow>
              if status_code \<noteq> 200 then [] else fst (search_engine_loop (take 12 results) []))"
  by (auto simp: scrape_search_engine_def scrape_search_engine_try_def Let_def
           split: sum.splits prod.splits option.splits)

lemma search_engine_loop_kept:
  "\<forall>r\<in>set products. priced_or_known r \<Longrightarrow>
   \<forall>r\<in>set (fst (search_engine_loop results products)). priced_or_known r"
proof (induction results arbitrary: products)
  case Nil
  then show ?case by simp
next
  case (Cons res rest)
  show ?case
  proof (cases "title_tag res")
    case None
    with Cons show ?thesis by simp
  next
    case tt: (Some tt)
    show ?thesis
    proof (cases "anchor_href tt")
      case None
      with tt Cons.prems show ?thesis by simp
    next
      case link: (Some link)
      define pr where "pr = parse_price (Some (anchor_text tt @ [space] @ (case snippet_tag res of Some sn \<Rightarrow> sn | None \<Rightarrow> [])))"
      define new where "new =
          \<lparr>marketplace = (case identify_marketplace link of Some name \<Rightarrow> name | None \<Rightarrow> ''Online Store''),
            price = pr, currency = ''INR'', url = link, description = None,
            images = [], in_stock = True, original_price = None,
            discount_percentage = None\<rparr>"
      have step: "search_engine_loop (res # rest) products =
            (if identify_marketplace link \<noteq> None \<or> pr > 0
             then search_engine_loop rest (products @ [new])
             else search_engine_loop rest products)"
        by (simp add: tt link Let_def pr_def new_def)
      show ?thesis
      proof (cases "identify_marketplace link \<noteq> None \<or> pr > 0")
        case True
        have "0 \<le> pr" unfolding pr_def by (rule parse_price_nonneg)
        with True have "priced_or_known new"
          using identify_marketplace_known [of link]
          by (cases "identify_marketplace link") (auto simp: priced_or_known_def new_def)
        with Cons.prems have "\<forall>r\<in>set (products @ [new]). priced_or_known r" by simp
        from Cons.IH [OF this] True show ?thesis by (simp only: step if_True)
      next
        case False
        from Cons.IH [OF Cons.prems] False show ?thesis by (simp only: step if_False)
      qed
    qed
  qed
qed

lemma amazon_loop_priced:
  "\<forall>r\<in>set products. 0 < price r \<Longrightarrow> \<forall>r\<in>set (fst (amazon_loop items products)). 0 < price r"
  by (induction items products rule: amazon_loop.induct) (auto simp: Let_def)

lemma flipkart_loop_priced:
  "\<forall>r\<in>set products. 0 < price r \<Longrightarrow> \<forall>r\<in>set (fst (flipkart_loop cards n products)). 0 < price r"
  by (induction cards n products rule: flipkart_loop.induct)
     (auto simp: Let_def split: sum.splits list.splits)

lemma scrape_amazon_priced: "\<forall>r\<in>set (collected (scrape_amazon w q)). 0 < price r"
proof (cases "amazon_get w q")
  case (Inl e)
  then show ?thesis by (simp add: scrape_amazon_eq collected_def)
next
  case (Inr page)
  obtain status_code items where "page = (status_code, items)" by (cases page)
  with Inr amazon_loop_priced [of "[]" "take 4 items"] show ?thesis
    by (simp add: scrape_amazon_eq collected_def)
qed

lemma scrape_flipkart_priced: "\<forall>r\<in>set (collected (scrape_flipkart w q)). 0 < price r"
proof (cases "flipkart_get w q")
  case (Inl e)
  then show ?thesis by (simp add: scrape_flipkart_eq collected_def)
next
  case (Inr page)
  obtain status_code cards where "page = (status_code, cards)" by (cases page)
  with Inr flipkart_loop_priced [of "[]" cards 0] show ?thesis
    by (simp add: scrape_flipkart_eq collected_def)
qed

lemma scrape_search_engine_kept: "\<forall>r\<in>set (collected (scrape_search_engine w q)). priced_or_known r"
proof (cases "ddg_post w (q @ lit '' price india buy online'')")
  case (Inl e)
  then show ?thesis by (simp add: scrape_search_engine_eq collected_def)
next
  case (Inr page)
  obtain status_code results where "page = (status_code, results)" by (cases page)
  with Inr search_engine_loop_kept [of "[]" "take 12 results"] show ?thesis
    by (simp add: scrape_search_engine_eq collected_def)
qed

lemma scrape_amazon_Inr: "scrape_amazon w q = Inr (collected (scrape_amazon w q))"
  by (simp add: scrape_amazon_eq collected_def)

lemma scrape_flipkart_Inr: "scrape_flipkart w q = Inr (collected (scrape_flipkart w q))"
  by (simp add: scrape_flipkart_eq collected_def)

lemma scrape_search_engine_Inr: "scrape_search_engine w q = Inr (collected (scrape_search_engine w q))"
  by (simp add: scrape_search_engine_eq collected_def)

lemma fallback_tier_eq:
  "fallback_tier w q s =
     (Inr (dedupe (collected (scrape_search_engine w q) @
             (if length (collected (scrape_search_engine w q)) < 2
              then collected (scrape_amazon w q) @ collected (scrape_flipkart w q) else []))), s)"
proof -
  have "fallback_tier w q s =
        fallback_search (stateless (\<lambda>x. Inr (collected (scrape_search_engine w x))))
          (stateless (\<lambda>x. Inr (collected (scrape_amazon w x))))
          (stateless (\<lambda>x. Inr (collected (scrape_flipkart w x)))) q s"
    unfolding fallback_tier_def
    using scrape_amazon_Inr scrape_flipkart_Inr scrape_search_engine_Inr by presburger
  then show ?thesis
    by (simp add: fallback_search_def stateless_def Let_def)
qed

lemma fallback_tier_kept:
  "\<forall>r\<in>set (collected (fst (fallback_tier w q s))). priced_or_known r"
proof
  fix r
  assume "r \<in> set (collected (fst (fallback_tier w q s)))"
  then have "r \<in> set (collected (scrape_search_engine w q)) \<or>
             r \<in> set (collected (scrape_amazon w q)) \<or>
             r \<in> set (collected (scrape_flipkart w q))"
    using set_dedupe
    by (fastforce simp: fallback_tier_eq collected_def [of "Inr _"] split: if_splits)
  then show "priced_or_known r"
    using scrape_search_engine_kept [of w q] scrape_amazon_priced [of w q]
      scrape_flipkart_priced [of w q]
    by (auto simp: priced_or_known_def)
qed

lemma parse_results_loop_nonneg:
  "\<forall>r\<in>set snapshots. 0 \<le> price r \<Longrightarrow> parse_results_loop items snapshots = Inr out \<Longrightarrow>
   \<forall>r\<in>set out. 0 \<le> price r"
proof (induction items arbitrary: snapshots)
  case Nil
  then show ?case by simp
next
  case (Cons item rest)
  show ?case
  proof (cases item)
    case ItemOther
    with Cons.prems show ?thesis by simp
  next
    case (ItemDict fields)
    from Cons.prems(2) obtain new where
      step: "parse_results_loop rest (snapshots @ [new]) = Inr out" and
      new: "price new = extract_price (get_default (fc_title fields) @ [space] @ get_default (fc_description fields))"
      unfolding ItemDict by (simp add: Let_def)
    from new have "0 \<le> price new" by (simp add: extract_price_nonneg)
    with Cons.prems(1) have "\<forall>r\<in>set (snapshots @ [new]). 0 \<le> price r" by simp
    from Cons.IH [OF this step] show ?thesis .
  qed
qed

lemma firecrawl_strategy_nonneg:
  "\<forall>r\<in>set (fst (firecrawl_strategy app q s)). 0 \<le> price r"
proof (cases app)
  case None
  then show ?thesis by (simp add: firecrawl_strategy_def)
next
  case (Some app_search)
  obtain resp s1 where call: "app_search (q @ lit '' price buy online amazon.in flipkart.com'') s = (resp, s1)"
    by (cases "app_search (q @ lit '' price buy online amazon.in flipkart.com'') s")
  show ?thesis
  proof (cases resp)
    case (Inl e)
    with Some call show ?thesis by (simp add: firecrawl_strategy_def Let_def)
  next
    case (Inr fc_results)
    define items where "items = (case fc_results of
                               FcDict (Some d) \<Rightarrow> d
                             | FcDict None \<Rightarrow> []
                             | FcList l \<Rightarrow> l
                             | FcOther \<Rightarrow> [])"
    have strategy: "fst (firecrawl_strategy app q s) =
          (if items \<noteq> [] then collected (parse_results items) else [])"
    proof (cases "parse_results items")
      case (Inl e)
      with Some call Inr show ?thesis
        by (simp add: firecrawl_strategy_def Let_def items_def [symmetric] collected_def)
    next
      case res: (Inr snapshots)
      with Some call Inr show ?thesis
        by (simp add: firecrawl_strategy_def Let_def items_def [symmetric] collected_def)
    qed
    have "\<forall>r\<in>set (collected (parse_results items)). 0 \<le> price r"
    proof (cases "parse_results items")
      case (Inl e)
      then show ?thesis by (simp add: collected_def)
    next
      case res: (Inr snapshots)
      then have "parse_results_loop items [] = Inr snapshots" by (simp add: parse_results_def)
      from parse_results_loop_nonneg [OF _ this] res show ?thesis by (simp add: collected_def)
    qed
    then show ?thesis by (simp add: strategy)
  qed
qed

lemma search_products_primary:
  "fst (firecrawl_strategy app q s) \<noteq> [] \<Longrightarrow>
   search_products app fb q s = firecrawl_strategy app q s"
  by (auto simp: search_products_def split: prod.splits)

lemma search_products_nonneg:
  "\<forall>r\<in>set (fst (search_products app (fallback_tier w) q s)). 0 \<le> price r"
proof (cases "fst (firecrawl_strategy app q s) = []")
  case True
  show ?thesis
    using fallback_tier_kept [of w q "snd (firecrawl_strategy app q s)"]
    by (auto simp: search_products_fallback [OF True] priced_or_known_def)
next
  case False
  from search_products_primary [OF this] firecrawl_strategy_nonneg [of app q s]
  show ?thesis by simp
qed

section \<open>The response of the search endpoint\<close>

lemma adapt_loop_prices:
  "fst (adapt_loop ps acc best m) = acc @ map make_snapshot ps"
  by (induction ps arbitrary: acc best m) (auto simp: Let_def)

lemma price_make_snapshot [simp]: "price (make_snapshot p) = price p"
  by (simp add: make_snapshot_def)

lemma adapt_loop_best:
  "best_ok acc best m \<Longrightarrow> \<forall>p\<in>set ps. 0 \<le> price p \<Longrightarrow>
   \<exists>m'. best_ok (acc @ map make_snapshot ps) (snd (adapt_loop ps acc best m)) m'"
proof (induction ps arbitrary: acc best m)
  case Nil
  then show ?case by auto
next
  case (Cons p ps)
  show ?case
  proof (cases "price p > 0 \<and> (case m of None \<Rightarrow> True | Some v \<Rightarrow> price p < v)")
    case True
    have "best_ok (acc @ [make_snapshot p]) (Some (make_snapshot p)) (Some (price p))"
      using Cons.prems(1) True
      by (auto simp: best_ok_def split: option.splits)
    from Cons.IH [OF this] Cons.prems(2) True show ?thesis
      by (simp add: Let_def)
  next
    case False
    have "best_ok (acc @ [make_snapshot p]) best m"
      using Cons.prems False
      by (auto simp: best_ok_def split: option.splits)
    from Cons.IH [OF this] Cons.prems(2) False show ?thesis
      by (auto simp: Let_def)
  qed
qed

lemma build_response_prices: "prices (build_response b ps) = map make_snapshot ps"
  using adapt_loop_prices [of ps "[]" None None]
  by (cases "adapt_loop ps [] None None") (simp add: build_response_def)

lemma build_response_confidence:
  "confidence_score (build_response b ps) = (if ps = [] then 1 / 10 else 8 / 10)"
  using adapt_loop_prices [of ps "[]" None None]
  by (cases "adapt_loop ps [] None None") (simp add: build_response_def)

lemma build_response_best:
  assumes "\<forall>p\<in>set ps. 0 \<le> price p"
  shows "case best_price (build_response b ps) of
           None \<Rightarrow> \<forall>x\<in>set (map make_snapshot ps). price x = 0
         | Some c \<Rightarrow> c \<in> set (map make_snapshot ps) \<and> price c \<noteq> 0 \<and>
             (\<forall>x\<in>set (map make_snapshot ps). price x \<noteq> 0 \<longrightarrow> price c \<le> price x)"
proof -
  have "best_ok [] None None" by (simp add: best_ok_def)
  from adapt_loop_best [OF this assms]
  obtain m' where "best_ok (map make_snapshot ps) (snd (adapt_loop ps [] None None)) m'"
    by auto
  moreover have "best_price (build_response b ps) = snd (adapt_loop ps [] None None)"
    by (cases "adapt_loop ps [] None None") (simp add: build_response_def)
  ultimately show ?thesis
    by (auto simp: best_ok_def split: option.splits)
qed

lemma search_response:
  "search sp name s = (Inr resp, s1) \<Longrightarrow> \<exists>b. resp = build_response b (fst (sp name s))"
  by (auto simp: search_def split: option.splits prod.splits)

section \<open>The example worlds, evaluated\<close>

lemma no_price_pipeline:
  "search_products None (fallback_tier world_no_price) (lit ''Sony Bravia TV'') () =
     ([\<lparr>marketplace = ''Amazon'', price = 0, currency = ''INR'',
        url = lit ''https://www.amazon.in/dp/B0'', description = None, images = [],
        in_stock = True, original_price = None, discount_percentage = None\<rparr>], ())"
  by (simp add: pipeline_defs world_no_price_def text_defs regex_defs price_defs)


lemma broken_listing_amazon:
  "scrape_amazon world_broken_listing (lit ''TV'') =
     Inr [\<lparr>marketplace = ''Amazon'', price = 1200, currency = ''INR'',
        url = lit ''https://www.amazon.in/dp/1'', description = None, images = [],
        in_stock = True, original_price = None, discount_percentage = None\<rparr>]"
  by (simp add: pipeline_defs world_broken_listing_def text_defs regex_defs price_defs)

lemma broken_listing_flipkart: "scrape_flipkart world_broken_listing q = Inr []"
  by (simp add: scrape_flipkart_eq world_broken_listing_def)

lemma broken_listing_engine: "scrape_search_engine world_broken_listing q = Inr []"
  by (simp add: scrape_search_engine_eq world_broken_listing_def)

lemma first_token_sony: "first_token (lit ''Sony Bravia TV'') = Some (lit ''Sony'')"
  by (simp add: first_token_def text_defs)

section \<open>The claims about the pipeline\<close>

text \<open>
  C1, as stated, fails: a record with price 0 reaches the caller. In
  \<open>world_no_price\<close> the aggregator keeps the Amazon page it found although its text
  carries no price, because its marketplace is known, and the top-level search returns
  that record with price 0.
\<close>

theorem zero_price_counterexample:
  "map price (fst (search_products None (fallback_tier world_no_price) (lit ''Sony Bravia TV'') ())) = [0]"
  by (simp add: no_price_pipeline)

text \<open>
  C1, amended. Every record returned by the top-level search has a price that is not
  negative. When the primary adapter yields nothing, every returned record has a price
  above 0, or price 0 and a known marketplace (the aggregator keeps a result of a
  known marketplace without a price). The records of the direct scrapers all have a
  price above 0. The primary adapter does not filter by price.
\<close>

theorem search_price_bounds:
  "(\<forall>r\<in>set (fst (search_products app (fallback_tier w) q s)). 0 \<le> price r) \<and>
   (fst (firecrawl_strategy app q s) = [] \<longrightarrow>
      (\<forall>r\<in>set (fst (search_products app (fallback_tier w) q s)).
          0 < price r \<or> (price r = 0 \<and> marketplace r \<noteq> ''Online Store''))) \<and>
   (\<forall>r\<in>set (collected (scrape_amazon w q)). 0 < price r) \<and>
   (\<forall>r\<in>set (collected (scrape_flipkart w q)). 0 < price r)"
proof (intro conjI impI)
  show "\<forall>r\<in>set (fst (search_products app (fallback_tier w) q s)). 0 \<le> price r"
    by (rule search_products_nonneg)
  show "\<forall>r\<in>set (fst (search_products app (fallback_tier w) q s)).
          0 < price r \<or> (price r = 0 \<and> marketplace r \<noteq> ''Online Store'')"
    if "fst (firecrawl_strategy app q s) = []"
    using fallback_tier_kept [of w q "snd (firecrawl_strategy app q s)"]
    by (simp add: search_products_fallback [OF that] priced_or_known_def)
  show "\<forall>r\<in>set (collected (scrape_amazon w q)). 0 < price r"
    by (rule scrape_amazon_priced)
  show "\<forall>r\<in>set (collected (scrape_flipkart w q)). 0 < price r"
    by (rule scrape_flipkart_priced)
qed

theorem search_price_bounds_witness:
  "fst (firecrawl_strategy None (lit ''TV'') ()) = [] \<and>
   map price (fst (search_products None (fallback_tier world_broken_listing) (lit ''TV'') ())) = [1200] \<and>
   list_all (\<lambda>r. 0 < price r \<or> (price r = 0 \<and> marketplace r \<noteq> ''Online Store''))
     (fst (search_products None (fallback_tier world_broken_listing) (lit ''TV'') ())) \<and>
   list_all (\<lambda>r. 0 < price r) (collected (scrape_amazon world_broken_listing (lit ''TV'')))"
proof -
  have 1: "fst (firecrawl_strategy None (lit ''TV'') ()) = []"
    by (simp add: firecrawl_strategy_def)
  have 2: "map price (fst (search_products None (fallback_tier world_broken_listing) (lit ''TV'') ())) = [1200]"
    by (simp add: search_products_fallback [OF 1] fallback_tier_eq broken_listing_amazon
          broken_listing_flipkart broken_listing_engine collected_def dedupe_def
          firecrawl_strategy_def)
  from search_price_bounds [of None world_broken_listing "lit ''TV''" "()"] 1 2
  show ?thesis by (simp add: list_all_iff)
qed

text \<open>
  C4, as stated, fails on the primary tier: its records are returned as they are, with
  no deduplication. Two items of the hosted API with the same URL give two records
  with the same URL.
\<close>

theorem primary_duplicates_counterexample:
  "map url (fst (search_products
      (Some (firecrawl_stub (FcList [item_at (lit ''A'') (lit ''TV''), item_at (lit ''A'') (lit ''TV'')])))
      (fallback_tier world_end_to_end) (lit ''TV'') [])) = [lit ''A'', lit ''A'']"
  by (simp add: pipeline_defs text_defs regex_defs price_defs)

text \<open>
  C4, amended. The fallback orchestrator removes duplicates in one pass that keeps the
  first occurrence of each URL and the order of the input, so the URLs of its result
  are distinct; whenever the primary adapter yields nothing, the sequence the
  top-level search returns has distinct URLs. The records of the primary tier are not
  deduplicated.
\<close>

theorem fallback_urls_unique:
  "dedupe rs = first_seen rs \<and> distinct (map url (dedupe rs)) \<and>
   (fst (firecrawl_strategy app q s) = [] \<longrightarrow>
      distinct (map url (fst (search_products app (fallback_tier w) q s))))"
proof -
  have "distinct (map url (collected (fst (fallback_tier w q s1))))" for s1 :: 'a
    by (simp add: fallback_tier_eq collected_def dedupe_first_seen distinct_first_seen)
  then show ?thesis
    by (simp add: dedupe_first_seen distinct_first_seen search_products_fallback)
qed

theorem fallback_urls_unique_witness:
  "map url (dedupe [record_at (lit ''A''), record_at (lit ''B''), record_at (lit ''A'')]) =
     [lit ''A'', lit ''B''] \<and>
   fst (firecrawl_strategy None (lit ''Sony Bravia TV'') ()) = [] \<and>
   distinct (map url (fst (search_products None (fallback_tier world_end_to_end) (lit ''Sony Bravia TV'') ())))"
proof -
  have 1: "fst (firecrawl_strategy None (lit ''Sony Bravia TV'') ()) = []"
    by (simp add: firecrawl_strategy_def)
  have 2: "map url (first_seen [record_at (lit ''A''), record_at (lit ''B''), record_at (lit ''A'')]) =
     [lit ''A'', lit ''B'']"
    by (simp add: record_at_def lit_def)
  note t = fallback_urls_unique [of "[record_at (lit ''A''), record_at (lit ''B''), record_at (lit ''A'')]"
      None "lit ''Sony Bravia TV''" "()" world_end_to_end]
  from t have a: "dedupe [record_at (lit ''A''), record_at (lit ''B''), record_at (lit ''A'')] =
        first_seen [record_at (lit ''A''), record_at (lit ''B''), record_at (lit ''A'')]"
    by (rule conjunct1)
  from t 1 have b: "distinct (map url (fst (search_products None (fallback_tier world_end_to_end) (lit ''Sony Bravia TV'') ())))"
    by blast
  have c: "map url (dedupe [record_at (lit ''A''), record_at (lit ''B''), record_at (lit ''A'')]) =
     [lit ''A'', lit ''B'']"
    unfolding a by (rule 2)
  from c 1 b show ?thesis by blast
qed

text \<open>
  C5. When strategy 1 (the primary adapter) leaves a non-empty list, the top-level
  search returns that list and the state the adapter left: the fallback is not called,
  whatever it is. When it leaves nothing, the result is what the fallback returns (the
  empty list when the fallback raises), and the state is the one the fallback leaves.
  The output is never a merge of both tiers.
\<close>

theorem tier_precedence:
  assumes "firecrawl_strategy app q s = (primary, s1)"
  shows "(primary \<noteq> [] \<longrightarrow> search_products app fallback q s = (primary, s1)) \<and>
         (primary = [] \<longrightarrow>
            search_products app fallback q s =
              (collected (fst (fallback q s1)), snd (fallback q s1)))"
  using assms by (auto simp: search_products_def collected_def split: prod.splits sum.splits)

theorem tier_precedence_witness:
  "search_products (Some (firecrawl_stub (FcList [item_at (lit ''A'') (lit ''TV'')])))
      (logged CallFallback (\<lambda>q. Inr [record_at (lit ''B'')])) (lit ''TV'') [] =
     (collected (parse_results [item_at (lit ''A'') (lit ''TV'')]), [CallFirecrawl]) \<and>
   collected (parse_results [item_at (lit ''A'') (lit ''TV'')]) \<noteq> [] \<and>
   search_products None (logged CallFallback (\<lambda>q. Inr [record_at (lit ''B'')])) (lit ''TV'') [] =
     ([record_at (lit ''B'')], [CallFallback])"
proof -
  have ne: "collected (parse_results [item_at (lit ''A'') (lit ''TV'')]) \<noteq> []"
    by (simp add: parse_results_def item_at_def collected_def Let_def)
  have 1: "firecrawl_strategy (Some (firecrawl_stub (FcList [item_at (lit ''A'') (lit ''TV'')]))) (lit ''TV'') [] =
        (collected (parse_results [item_at (lit ''A'') (lit ''TV'')]), [CallFirecrawl])"
    using ne by (simp add: firecrawl_strategy_def firecrawl_stub_def Let_def collected_def split: sum.splits)
  have 2: "firecrawl_strategy None (lit ''TV'') ([] :: call list) = ([], [])"
    by (simp add: firecrawl_strategy_def)
  from tier_precedence [OF 1] tier_precedence [OF 2] ne show ?thesis
    by (simp add: logged_def collected_def)
qed

text \<open>
  C6. With every scraper recording its call, the calls of the fallback orchestrator
  are the aggregator alone when the aggregator returns two results or more, and the
  aggregator, then Amazon, then Flipkart when it returns fewer than two. Flipkart is
  called whether the Amazon scraper returns or raises, and the result merges what the
  scrapers that did not raise returned.
\<close>

theorem escalation_trigger:
  assumes "search_engine q = Inr rs"
  shows "snd (fallback_search (logged CallSearchEngine search_engine) (logged CallAmazon amazon)
               (logged CallFlipkart flipkart) q calls) =
           calls @ (if length rs < 2 then [CallSearchEngine, CallAmazon, CallFlipkart]
                  else [CallSearchEngine]) \<and>
         fst (fallback_search (logged CallSearchEngine search_engine) (logged CallAmazon amazon)
               (logged CallFlipkart flipkart) q calls) =
           Inr (dedupe (rs @ (if length rs < 2 then collected (amazon q) @ collected (flipkart q)
                              else [])))"
  using assms
  by (auto simp: fallback_search_def logged_def collected_def Let_def split: sum.splits)

theorem escalation_trigger_witness:
  "snd (fallback_search (logged CallSearchEngine (\<lambda>q. Inr [record_at (lit ''A'')]))
          (logged CallAmazon (\<lambda>q. Inl RequestException))
          (logged CallFlipkart (\<lambda>q. Inr [record_at (lit ''B'')])) (lit ''TV'') []) =
     [CallSearchEngine, CallAmazon, CallFlipkart] \<and>
   map url (collected (fst (fallback_search (logged CallSearchEngine (\<lambda>q. Inr [record_at (lit ''A'')]))
          (logged CallAmazon (\<lambda>q. Inl RequestException))
          (logged CallFlipkart (\<lambda>q. Inr [record_at (lit ''B'')])) (lit ''TV'') []))) =
     [lit ''A'', lit ''B''] \<and>
   snd (fallback_search (logged CallSearchEngine (\<lambda>q. Inr [record_at (lit ''A''), record_at (lit ''B'')]))
          (logged CallAmazon (\<lambda>q. Inr [record_at (lit ''C'')]))
          (logged CallFlipkart (\<lambda>q. Inr [record_at (lit ''D'')])) (lit ''TV'') []) =
     [CallSearchEngine]"
  using escalation_trigger [of "\<lambda>q. Inr [record_at (lit ''A'')]" "lit ''TV''" "[record_at (lit ''A'')]"
          "\<lambda>q. Inl RequestException" "\<lambda>q. Inr [record_at (lit ''B'')]" "[]"]
        escalation_trigger [of "\<lambda>q. Inr [record_at (lit ''A''), record_at (lit ''B'')]" "lit ''TV''"
          "[record_at (lit ''A''), record_at (lit ''B'')]"
          "\<lambda>q. Inr [record_at (lit ''C'')]" "\<lambda>q. Inr [record_at (lit ''D'')]" "[]"]
  by (simp add: collected_def dedupe_def record_at_def lit_def)

text \<open>
  C8. The direct scrapers never raise: each returns the empty list when the request
  raises or the status is not 200, and otherwise the listings its loop had collected
  when it ended, be it at the end of the page (an empty page gives the empty list) or
  at a listing that raised. The fallback orchestrator over these scrapers always
  returns a list, and so does the top-level search.
\<close>

theorem scrapers_never_raise:
  "scrape_amazon w q =
     Inr (case amazon_get w q of
            Inl e \<Rightarrow> []
          | Inr (status_code, items) \<Rightarrow>
              if status_code \<noteq> 200 then [] else fst (amazon_loop (take 4 items) [])) \<and>
   scrape_flipkart w q =
     Inr (case flipkart_get w q of
            Inl e \<Rightarrow> []
          | Inr (status_code, cards) \<Rightarrow>
              if status_code \<noteq> 200 then [] else fst (flipkart_loop cards 0 [])) \<and>
   (\<exists>found. fallback_tier w q s = (Inr found, s)) \<and>
   (\<exists>found. search_products None (fallback_tier w) q s = (found, s))"
proof -
  have "\<exists>found. search_products None (fallback_tier w) q s = (found, s)"
    by (simp add: search_products_def firecrawl_strategy_def fallback_tier_eq)
  then show ?thesis
    using scrape_amazon_eq [of w q] scrape_flipkart_eq [of w q] fallback_tier_eq [of w q s]
    by blast
qed

theorem scrapers_never_raise_witness:
  "map url (collected (scrape_amazon world_broken_listing (lit ''TV''))) = [lit ''https://www.amazon.in/dp/1''] \<and>
   scrape_flipkart world_broken_listing (lit ''TV'') = Inr [] \<and>
   scrape_amazon world_no_price (lit ''TV'') = Inr [] \<and>
   scrape_flipkart world_no_price (lit ''TV'') = Inr []"
proof -
  note broken = scrapers_never_raise [of world_broken_listing "lit ''TV''" "()"]
  note blocked = scrapers_never_raise [of world_no_price "lit ''TV''" "()"]
  have 1: "map url (collected (scrape_amazon world_broken_listing (lit ''TV''))) =
           [lit ''https://www.amazon.in/dp/1'']"
    by (simp add: broken_listing_amazon collected_def)
  from broken have "scrape_flipkart world_broken_listing (lit ''TV'') =
     Inr (case flipkart_get world_broken_listing (lit ''TV'') of
            Inl e \<Rightarrow> []
          | Inr (status_code, cards) \<Rightarrow>
              if status_code \<noteq> 200 then [] else fst (flipkart_loop cards 0 []))"
    by blast
  then have 2: "scrape_flipkart world_broken_listing (lit ''TV'') = Inr []"
    by (simp add: world_broken_listing_def)
  from blocked have "scrape_amazon world_no_price (lit ''TV'') =
     Inr (case amazon_get world_no_price (lit ''TV'') of
            Inl e \<Rightarrow> []
          | Inr (status_code, items) \<Rightarrow>
              if status_code \<noteq> 200 then [] else fst (amazon_loop (take 4 items) []))"
    by blast
  then have 3: "scrape_amazon world_no_price (lit ''TV'') = Inr []"
    by (simp add: world_no_price_def)
  from blocked have "scrape_flipkart world_no_price (lit ''TV'') =
     Inr (case flipkart_get world_no_price (lit ''TV'') of
            Inl e \<Rightarrow> []
          | Inr (status_code, cards) \<Rightarrow>
              if status_code \<noteq> 200 then [] else fst (flipkart_loop cards 0 []))"
    by blast
  then have 4: "scrape_flipkart world_no_price (lit ''TV'') = Inr []"
    by (simp add: world_no_price_def)
  from 1 2 3 4 show ?thesis by blast
qed



text \<open>
  C10. When the pipeline returns a non-empty list in which every record has price 0,
  the response of the search endpoint lists a snapshot for each of them, its
  confidence score is 0.8, and its best price is absent. \<open>world_no_price\<close> is an input
  of the pipeline that leads there.
\<close>

theorem zero_price_response:
  assumes "search scraper name s = (Inr resp, s1)"
    and "fst (scraper name s) \<noteq> []"
    and "\<forall>p\<in>set (fst (scraper name s)). price p = 0"
  shows "prices resp = map make_snapshot (fst (scraper name s)) \<and> prices resp \<noteq> [] \<and>
         confidence_score resp = 8 / 10 \<and> best_price resp = None"
proof -
  from search_response [OF assms(1)] obtain b where
    resp: "resp = build_response b (fst (scraper name s))"
    by blast
  have "best_price (build_response b (fst (scraper name s))) = None"
    using build_response_best [of "fst (scraper name s)" b] assms(3)
    by (cases "best_price (build_response b (fst (scraper name s)))") auto
  with assms(2) show ?thesis
    by (simp add: resp build_response_prices build_response_confidence)
qed

theorem zero_price_response_witness:
  "map price (prices (build_response (lit ''Sony'')
      (fst (search_products None (fallback_tier world_no_price) (lit ''Sony Bravia TV'') ())))) = [0] \<and>
   best_price (build_response (lit ''Sony'')
      (fst (search_products None (fallback_tier world_no_price) (lit ''Sony Bravia TV'') ()))) = None \<and>
   confidence_score (build_response (lit ''Sony'')
      (fst (search_products None (fallback_tier world_no_price) (lit ''Sony Bravia TV'') ()))) = 8 / 10"
proof -
  have 1: "search (search_products None (fallback_tier world_no_price)) (lit ''Sony Bravia TV'') () =
        (Inr (build_response (lit ''Sony'')
           (fst (search_products None (fallback_tier world_no_price) (lit ''Sony Bravia TV'') ()))), ())"
    by (simp add: search_def first_token_sony no_price_pipeline)
  have 2: "fst (search_products None (fallback_tier world_no_price) (lit ''Sony Bravia TV'') ()) \<noteq> []"
    by (simp add: no_price_pipeline)
  have 3: "\<forall>p\<in>set (fst (search_products None (fallback_tier world_no_price) (lit ''Sony Bravia TV'') ())). price p = 0"
    by (simp add: no_price_pipeline)
  from zero_price_response [OF 1 2 3] show ?thesis
    by (simp add: no_price_pipeline make_snapshot_def)
qed

end
